theory Spec2Isabelle
  imports Complex_Main "HOL-Library.Sublist" "HOL-Library.AList" "HOL-Library.Multiset"
begin

section \<open>Strings and scalar values\<close>

text \<open>
  Python strings are modelled as \<open>string\<close>. \<open>str.lower\<close> is modelled on the ASCII
  letters; \<open>s.startswith(p)\<close> is \<open>prefix p s\<close> and \<open>q in s\<close> is \<open>sublist q s\<close>, so the
  empty string is a prefix and a substring of every string, as in Python.
\<close>

definition lower_char :: "char \<Rightarrow> char" where
  "lower_char c =
     (case map_of (zip ''ABCDEFGHIJKLMNOPQRSTUVWXYZ'' ''abcdefghijklmnopqrstuvwxyz'') c of
        None \<Rightarrow> c
      | Some l \<Rightarrow> l)"

definition lower :: "string \<Rightarrow> string" where
  "lower s = map lower_char s"

definition startswith :: "string \<Rightarrow> string \<Rightarrow> bool" where
  "startswith s p = prefix p s"

definition str_in :: "string \<Rightarrow> string \<Rightarrow> bool" where
  "str_in q s = sublist q s"

text \<open>
  The values of a concept's metadata dictionary: JSON scalars. \<open>py_str\<close> is Python's
  \<open>str()\<close> on them. Floating-point numbers and nested values are outside this
  type. Scores and confidences are floats in the source and exact reals here.
\<close>

datatype scalar = SNone | SBool bool | SInt int | SStr string

definition digit_char :: "nat \<Rightarrow> char" where
  "digit_char d = (case map_of (zip [0, 1, 2, 3, 4, 5, 6, 7, 8, 9] ''0123456789'') d of
                     None \<Rightarrow> CHR ''0''
                   | Some ch \<Rightarrow> ch)"

fun string_of_nat :: "nat \<Rightarrow> string" where
  "string_of_nat n =
     (if n < 10 then [digit_char n]
      else string_of_nat (n div 10) @ [digit_char (n mod 10)])"

declare string_of_nat.simps [simp del]

definition string_of_int :: "int \<Rightarrow> string" where
  "string_of_int i = (if i < 0 then CHR ''-'' # string_of_nat (nat (- i)) else string_of_nat (nat i))"

fun py_str :: "scalar \<Rightarrow> string" where
  "py_str SNone = ''None''"
| "py_str (SBool b) = (if b then ''True'' else ''False'')"
| "py_str (SInt i) = string_of_int i"
| "py_str (SStr s) = s"

section \<open>The tables: concepts and mappings\<close>

text \<open>
  Rows of the \<open>concepts\<close> and \<open>mappings\<close> tables (\<open>app/db/models.py\<close>), without the
  surrogate key and the creation time, which no operation below reads. Nullable
  columns are options; a dictionary is an association list, looked up with \<open>map_of\<close>.
\<close>

record concept =
  system :: string
  code :: string
  display :: string
  definition_text :: "string option"
  language :: string
  source :: "string option"
  version :: "string option"
  metadata :: "(string \<times> scalar) list option"

record mapping =
  source_system :: string
  source_code :: string
  target_system :: string
  target_code :: string
  equivalence :: string
  confidence :: real
  mapping_method :: "string option"
  evidence :: "(string \<times> scalar) list option"
  curator :: "string option"

record store =
  concepts :: "concept list"
  mappings :: "mapping list"

section \<open>Relevance scoring\<close>

text \<open>
  \<open>NamasteLoader._calculate_relevance_score\<close>: the score is accumulated statement by
  statement; the loop over the four metadata fields is a \<open>fold\<close>. A Python condition
  \<open>x and ...\<close> on an optional string or dictionary is false for \<open>None\<close> and for the
  empty value.
\<close>

definition metadata_fields :: "string list" where
  "metadata_fields = [''sanskrit_name'', ''english_name'', ''category'', ''subcategory'']"

definition calculate_relevance_score :: "string \<Rightarrow> concept \<Rightarrow> real" where
  "calculate_relevance_score query c =
     (let query_lower = lower query;
          score = 0;
          score = (if lower (code c) = query_lower then score + 1.0
                   else if startswith (lower (code c)) query_lower then score + 0.9
                   else if str_in query_lower (lower (code c)) then score + 0.7
                   else score);
          score = (if lower (display c) = query_lower then score + 0.8
                   else if startswith (lower (display c)) query_lower then score + 0.6
                   else if str_in query_lower (lower (display c)) then score + 0.4
                   else score);
          score = (case definition_text c of
                     None \<Rightarrow> score
                   | Some d \<Rightarrow> if d \<noteq> [] \<and> str_in query_lower (lower d) then score + 0.3 else score);
          score = (case metadata c of
                     None \<Rightarrow> score
                   | Some md \<Rightarrow>
                       if system c = ''namaste'' \<and> md \<noteq> [] then
                         fold (\<lambda>field score.
                                 case map_of md field of
                                   None \<Rightarrow> score
                                 | Some v \<Rightarrow> if str_in query_lower (lower (py_str v))
                                            then score + 0.2 else score)
                              metadata_fields score
                       else score)
      in min score 1.0)"

subsection \<open>The score as the specification words it\<close>

definition code_component :: "string \<Rightarrow> concept \<Rightarrow> real" where
  "code_component q c =
     (if lower (code c) = lower q then 1.0
      else if startswith (lower (code c)) (lower q) then 0.9
      else if str_in (lower q) (lower (code c)) then 0.7 else 0)"

definition display_component :: "string \<Rightarrow> concept \<Rightarrow> real" where
  "display_component q c =
     (if lower (display c) = lower q then 0.8
      else if startswith (lower (display c)) (lower q) then 0.6
      else if str_in (lower q) (lower (display c)) then 0.4 else 0)"

definition definition_component :: "string \<Rightarrow> concept \<Rightarrow> real" where
  "definition_component q c =
     (case definition_text c of
        None \<Rightarrow> 0
      | Some d \<Rightarrow> if str_in (lower q) (lower d) then 0.3 else 0)"

definition field_matches :: "string \<Rightarrow> concept \<Rightarrow> string \<Rightarrow> bool" where
  "field_matches q c field =
     (case metadata c of
        None \<Rightarrow> False
      | Some md \<Rightarrow> (case map_of md field of
                      None \<Rightarrow> False
                    | Some v \<Rightarrow> str_in (lower q) (lower (py_str v))))"

definition metadata_component :: "string \<Rightarrow> concept \<Rightarrow> real" where
  "metadata_component q c =
     (if system c = ''namaste''
      then 0.2 * real (length (filter (field_matches q c) metadata_fields))
      else 0)"

definition spec_relevance_score :: "string \<Rightarrow> concept \<Rightarrow> real" where
  "spec_relevance_score q c =
     min (code_component q c + display_component q c
          + definition_component q c + metadata_component q c) 1.0"

section \<open>Exceptions and query results\<close>

text \<open>
  A raised exception is the left summand of the result; an \<open>HTTPException\<close> is the
  status code with the exception it reports, if any. \<open>Result.scalar_one_or_none\<close>
  returns the only row, \<open>None\<close> when there is none, and raises when there are several.
  \<open>list.sort(key=..., reverse=True)\<close> is a stable sort by descending key.
\<close>

datatype exn =
  AttributeError | TypeError | ValueError | MultipleResultsFound | DatabaseError | HTTPError

datatype http_exception = HTTPException nat "exn option"

definition and_then :: "exn + 'a \<Rightarrow> ('a \<Rightarrow> exn + 'b) \<Rightarrow> exn + 'b" where
  "and_then r f = (case r of Inl e \<Rightarrow> Inl e | Inr x \<Rightarrow> f x)"

fun scalar_one_or_none :: "'a list \<Rightarrow> exn + 'a option" where
  "scalar_one_or_none [] = Inr None"
| "scalar_one_or_none [x] = Inr (Some x)"
| "scalar_one_or_none (x # y # zs) = Inl MultipleResultsFound"

definition sort_reverse :: "('a \<Rightarrow> real) \<Rightarrow> 'a list \<Rightarrow> 'a list" where
  "sort_reverse key xs = sort_key (\<lambda>x. - key x) xs"

section \<open>The mapping service\<close>

text \<open>
  \<open>MappingService.translate\<close> and \<open>MappingService._get_concept\<close>. A \<open>select\<close> returns
  the matching rows in table order. Reading the tables is taken to succeed; the one
  exception the code itself can raise here is that of \<open>scalar_one_or_none\<close>.
\<close>

record translation_candidate =
  cand_target_system :: string
  cand_target_code :: string
  target_display :: "string option"
  cand_equivalence :: string
  cand_confidence :: real
  cand_method :: "string option"
  cand_evidence :: "(string \<times> scalar) list option"

definition get_concept :: "store \<Rightarrow> string \<Rightarrow> string \<Rightarrow> exn + concept option" where
  "get_concept db sys cd =
     scalar_one_or_none (filter (\<lambda>c. system c = sys \<and> code c = cd) (concepts db))"

fun translate_loop ::
  "store \<Rightarrow> mapping list \<Rightarrow> translation_candidate list \<Rightarrow> exn + translation_candidate list" where
  "translate_loop db [] candidates = Inr candidates"
| "translate_loop db (m # ms) candidates =
     (case get_concept db (target_system m) (target_code m) of
        Inl e \<Rightarrow> Inl e
      | Inr target_concept \<Rightarrow>
          translate_loop db ms
            (candidates @
             [\<lparr>cand_target_system = target_system m,
               cand_target_code = target_code m,
               target_display = (case target_concept of None \<Rightarrow> None | Some t \<Rightarrow> Some (display t)),
               cand_equivalence = equivalence m,
               cand_confidence = confidence m,
               cand_method = mapping_method m,
               cand_evidence = evidence m\<rparr>]))"

definition translate :: "store \<Rightarrow> string \<Rightarrow> string \<Rightarrow> exn + translation_candidate list" where
  "translate db sys cd =
     (case translate_loop db
             (filter (\<lambda>m. source_system m = sys \<and> source_code m = cd) (mappings db)) [] of
        Inl e \<Rightarrow> Inl e
      | Inr candidates \<Rightarrow> Inr (sort_reverse cand_confidence candidates))"

text \<open>
  \<open>MappingService.add_mapping\<close>. The session holds the committed tables and the rows
  added but not yet committed. The two database interactions of one call (the
  pre-check \<open>execute\<close> and the \<open>commit\<close>) may each fail, as the \<open>faults\<close> of the call
  say. The \<open>try\<close> body is \<open>add_mapping_body\<close>; \<open>add_mapping\<close> is the body under its
  \<open>except Exception\<close> handler, which rolls back and returns \<open>False\<close>. The rollback
  discards what is pending and is taken to succeed.
\<close>

record session =
  committed :: store
  pending :: "mapping list"

record faults =
  execute_fails :: bool
  commit_fails :: bool

definition session_add :: "mapping \<Rightarrow> session \<Rightarrow> session" where
  "session_add m s = s\<lparr>pending := pending s @ [m]\<rparr>"

definition session_commit :: "faults \<Rightarrow> session \<Rightarrow> (exn + unit) \<times> session" where
  "session_commit f s =
     (if commit_fails f then (Inl DatabaseError, s)
      else (Inr (),
            s\<lparr>committed := (committed s)\<lparr>mappings := mappings (committed s) @ pending s\<rparr>,
              pending := []\<rparr>))"

definition session_rollback :: "session \<Rightarrow> session" where
  "session_rollback s = s\<lparr>pending := []\<rparr>"

definition execute_select :: "faults \<Rightarrow> ('a \<Rightarrow> bool) \<Rightarrow> 'a list \<Rightarrow> exn + 'a list" where
  "execute_select f cond table = (if execute_fails f then Inl DatabaseError else Inr (filter cond table))"

definition same_key :: "mapping \<Rightarrow> mapping \<Rightarrow> bool" where
  "same_key m r \<longleftrightarrow>
     source_system r = source_system m \<and> source_code r = source_code m \<and>
     target_system r = target_system m \<and> target_code r = target_code m"

definition add_mapping_body :: "faults \<Rightarrow> mapping \<Rightarrow> session \<Rightarrow> (exn + bool) \<times> session" where
  "add_mapping_body f m s =
     (case and_then (execute_select f (same_key m) (mappings (committed s))) scalar_one_or_none of
        Inl e \<Rightarrow> (Inl e, s)
      | Inr (Some existing) \<Rightarrow> (Inr False, s)
      | Inr None \<Rightarrow>
          (case session_commit f (session_add m s) of
             (Inl e, s') \<Rightarrow> (Inl e, s')
           | (Inr u, s') \<Rightarrow> (Inr True, s')))"

definition add_mapping :: "faults \<Rightarrow> mapping \<Rightarrow> session \<Rightarrow> (exn + bool) \<times> session" where
  "add_mapping f m s =
     (case add_mapping_body f m s of
        (Inl e, s') \<Rightarrow> (Inr False, session_rollback s')
      | (Inr b, s') \<Rightarrow> (Inr b, s'))"

section \<open>Search\<close>

text \<open>
  \<open>NamasteLoader.search\<close>. The database is SQLite, where \<open>column.ilike(p)\<close> is
  \<open>lower(column) LIKE lower(p)\<close>: in the pattern \<open>%\<close> stands for any run of characters
  and \<open>_\<close> for any one character, there is no escape character, and the comparison is
  not true on a \<open>NULL\<close> column. The query goes into the pattern \<open>%query%\<close> as it is.

  The metadata conditions read \<open>.astext\<close> of an element of the column \<open>metadata\<close>,
  which is declared with the generic JSON type and has no such attribute: building
  them raises \<open>AttributeError\<close>. So the search raises whenever the system is unset or
  is namaste, before the database is read, and the metadata conditions are part of no
  query that runs.

  The \<open>limit\<close> is a natural number: the routes admit only positive limits. The
  response models \<open>ConceptResponse\<close> and \<open>MappingResponse\<close> have the fields of the
  rows, so the rows stand for them.
\<close>

record search_result =
  concept :: concept
  result_mappings :: "mapping list"
  relevance_score :: "real option"

fun like_match :: "string \<Rightarrow> string \<Rightarrow> bool" where
  "like_match [] s = (s = [])"
| "like_match (p # ps) [] = (p = CHR ''%'' \<and> like_match ps [])"
| "like_match (p # ps) (c # cs) =
     (if p = CHR ''%'' then like_match ps (c # cs) \<or> like_match (p # ps) cs
      else (p = CHR ''_'' \<or> p = c) \<and> like_match ps cs)"

definition ilike :: "string option \<Rightarrow> string \<Rightarrow> bool" where
  "ilike column q =
     (case column of
        None \<Rightarrow> False
      | Some text \<Rightarrow> like_match (lower (''%'' @ q @ ''%'')) (lower text))"

definition truthy_str :: "string option \<Rightarrow> bool" where
  "truthy_str s = (case s of None \<Rightarrow> False | Some t \<Rightarrow> t \<noteq> [])"

definition falsy_str :: "string option \<Rightarrow> bool" where
  "falsy_str s = (case s of None \<Rightarrow> True | Some t \<Rightarrow> t = [])"

definition search_conditions :: "string \<Rightarrow> concept \<Rightarrow> bool" where
  "search_conditions query c \<longleftrightarrow>
     ilike (Some (display c)) query \<or> ilike (definition_text c) query
     \<or> ilike (Some (code c)) query"

definition select_concepts :: "store \<Rightarrow> string \<Rightarrow> string option \<Rightarrow> nat \<Rightarrow> concept list" where
  "select_concepts db query sys limit =
     take limit
       (filter (\<lambda>c. (if truthy_str sys then Some (system c) = sys else True) \<and>
                     search_conditions query c)
               (concepts db))"

definition concept_mappings :: "store \<Rightarrow> concept \<Rightarrow> mapping list" where
  "concept_mappings db c =
     filter (\<lambda>m. (source_system m = system c \<and> source_code m = code c) \<or>
                  (target_system m = system c \<and> target_code m = code c))
            (mappings db)"

definition score_or_0 :: "search_result \<Rightarrow> real" where
  "score_or_0 x = (case relevance_score x of None \<Rightarrow> 0 | Some r \<Rightarrow> r)"

definition search ::
  "store \<Rightarrow> string \<Rightarrow> string option \<Rightarrow> nat \<Rightarrow> exn + search_result list" where
  "search db query sys limit =
     (if falsy_str sys \<or> sys = Some ''namaste'' then Inl AttributeError
      else
        (let concepts = select_concepts db query sys limit;
             search_results =
               map (\<lambda>c. \<lparr>concept = c,
                          result_mappings = concept_mappings db c,
                          relevance_score = Some (calculate_relevance_score query c)\<rparr>)
                   concepts
         in Inr (sort_reverse score_or_0 search_results)))"

text \<open>
  \<open>ICD11Client.search\<close> and \<open>ICD11Client._parse_icd11_entity\<close>. The HTTP exchange is
  a parameter: either an exception (connection failure, timeout, error status, invalid
  body) or the decoded body, of which the code reads the \<open>destinationEntities\<close> list
  when it is present. An entity is modelled with its three text fields and the scalar
  values among its other fields.
\<close>

record icd11_entity =
  theCode :: string
  title :: string
  entity_definition :: string
  entity_fields :: "(string \<times> scalar) list"

fun truthy_scalar :: "scalar \<Rightarrow> bool" where
  "truthy_scalar SNone = False"
| "truthy_scalar (SBool b) = b"
| "truthy_scalar (SInt i) = (i \<noteq> 0)"
| "truthy_scalar (SStr s) = (s \<noteq> [])"

definition entity_metadata_keys :: "(string \<times> string) list" where
  "entity_metadata_keys =
     [(''icd11_id'', ''id''), (''isLeaf'', ''isLeaf''), (''parent'', ''parent''),
      (''inclusion'', ''inclusion''), (''exclusion'', ''exclusion''),
      (''codingNote'', ''codingNote''), (''browserUrl'', ''browserUrl''),
      (''foundation_uri'', ''foundation_uri''), (''linearization_uri'', ''linearization_uri'')]"

definition parse_icd11_entity :: "icd11_entity \<Rightarrow> concept option" where
  "parse_icd11_entity entity =
     (if theCode entity = [] \<or> title entity = [] then None
      else Some \<lparr>system = ''icd11'',
                 code = theCode entity,
                 display = title entity,
                 definition_text = Some (entity_definition entity),
                 language = ''en'',
                 source = Some ''WHO ICD-11'',
                 version = Some ''2025-01'',
                 metadata =
                   Some (filter (\<lambda>(k, v). truthy_scalar v)
                           (map (\<lambda>(k, k').
                                   (k, case map_of (entity_fields entity) k' of
                                         None \<Rightarrow> (if k = ''isLeaf'' then SBool False else SStr [])
                                       | Some v \<Rightarrow> v))
                                entity_metadata_keys))\<rparr>)"

definition icd11_search :: "(exn + icd11_entity list option) \<Rightarrow> nat \<Rightarrow> concept list" where
  "icd11_search http_reply limit =
     (case http_reply of
        Inl e \<Rightarrow> []
      | Inr None \<Rightarrow> []
      | Inr (Some entities) \<Rightarrow> List.map_filter parse_icd11_entity (take limit entities))"

text \<open>
  The route \<open>search_terms\<close> of \<open>app/routes/lookup.py\<close>: the merged search. The elapsed
  time it reports is a parameter. The last two statements of its body, the sort and
  the cut to \<open>limit\<close>, are \<open>rank_and_limit\<close>. An exception of the body, which here is
  one of the local search, becomes the server error 500.
\<close>

record search_response =
  resp_query :: string
  resp_system :: "string option"
  total_results :: nat
  results :: "search_result list"
  execution_time_ms :: real

definition rank_and_limit :: "search_result list \<Rightarrow> nat \<Rightarrow> search_result list" where
  "rank_and_limit all_results limit = take limit (sort_reverse score_or_0 all_results)"

definition search_terms ::
  "store \<Rightarrow> (exn + icd11_entity list option) \<Rightarrow> real \<Rightarrow> string \<Rightarrow> string option \<Rightarrow> nat
   \<Rightarrow> http_exception + search_response" where
  "search_terms db http_reply elapsed q sys limit =
     (case (if falsy_str sys \<or> sys \<in> {Some ''namaste'', Some ''all''}
            then search db q (Some ''namaste'') limit
            else Inr []) of
        Inl e \<Rightarrow> Inl (HTTPException 500 (Some e))
      | Inr namaste_results \<Rightarrow>
          (let all_results = [] @ namaste_results;
               all_results =
                 (if falsy_str sys \<or> sys \<in> {Some ''icd11'', Some ''all''}
                  then all_results @
                       map (\<lambda>concept_data. \<lparr>concept = concept_data, result_mappings = [],
                                              relevance_score = Some 0.5\<rparr>)
                           (icd11_search http_reply limit)
                  else all_results);
               all_results = rank_and_limit all_results limit
           in Inr \<lparr>resp_query = q, resp_system = sys, total_results = length all_results,
                   results = all_results, execution_time_ms = elapsed\<rparr>))"

section \<open>JSON values\<close>

text \<open>
  The bundle of a request is decoded JSON: any nesting of dictionaries, lists and
  scalars. The operations the code applies to it raise on values of the wrong kind:
  \<open>x.get(k, d)\<close> exists on dictionaries only, a \<open>for\<close> loop iterates over a list,
  over the keys of a dictionary or over the characters of a string, and nothing else.
\<close>

datatype json =
  JNull | JBool bool | JInt int | JFloat real | JStr string
  | JList "json list" | JDict "(string \<times> json) list"

fun truthy :: "json \<Rightarrow> bool" where
  "truthy JNull = False"
| "truthy (JBool b) = b"
| "truthy (JInt i) = (i \<noteq> 0)"
| "truthy (JFloat r) = (r \<noteq> 0)"
| "truthy (JStr s) = (s \<noteq> [])"
| "truthy (JList xs) = (xs \<noteq> [])"
| "truthy (JDict d) = (d \<noteq> [])"

definition dict_get :: "(string \<times> json) list \<Rightarrow> string \<Rightarrow> json \<Rightarrow> json" where
  "dict_get d key dflt = (case map_of d key of None \<Rightarrow> dflt | Some v \<Rightarrow> v)"

fun py_get :: "json \<Rightarrow> string \<Rightarrow> json \<Rightarrow> exn + json" where
  "py_get (JDict d) key dflt = Inr (dict_get d key dflt)"
| "py_get obj key dflt = Inl AttributeError"

fun py_iter :: "json \<Rightarrow> exn + json list" where
  "py_iter (JList xs) = Inr xs"
| "py_iter (JDict d) = Inr (map (\<lambda>(k, v). JStr k) d)"
| "py_iter (JStr s) = Inr (map (\<lambda>ch. JStr [ch]) s)"
| "py_iter obj = Inl TypeError"

section \<open>The audit log\<close>

text \<open>
  \<open>record_audit\<close> and \<open>create_audit_detail\<close> of \<open>app/security/audit.py\<close>. The audit
  table is a list of rows; \<open>commits\<close> counts the commits attempted on the session, and
  the parameter \<open>fails\<close> says which of them fail. A failed commit is rolled back and
  the exception is raised again. The keyword arguments of \<open>create_audit_detail\<close> are
  one association list; entries whose value is \<open>None\<close> are dropped.
\<close>

record audit_log =
  audit_id :: nat
  actor :: string
  action :: string
  resource_type :: json
  resource_id :: json
  detail :: "(string \<times> json) list"

record audit_db =
  audit_logs :: "audit_log list"
  commits :: nat

definition record_audit ::
  "(nat \<Rightarrow> bool) \<Rightarrow> audit_db \<Rightarrow> string \<Rightarrow> string \<Rightarrow> json \<Rightarrow> json \<Rightarrow> (string \<times> json) list
   \<Rightarrow> (exn + string) \<times> audit_db" where
  "record_audit fails db act_by act rtype rid det =
     (let audit_entry = \<lparr>audit_id = Suc (length (audit_logs db)), actor = act_by, action = act,
                          resource_type = rtype, resource_id = rid, detail = det\<rparr>
      in if fails (commits db)
         then (Inl DatabaseError, db\<lparr>commits := Suc (commits db)\<rparr>)
         else (Inr (string_of_nat (audit_id audit_entry)),
               db\<lparr>audit_logs := audit_logs db @ [audit_entry], commits := Suc (commits db)\<rparr>))"

definition create_audit_detail :: "string \<Rightarrow> (string \<times> json) list \<Rightarrow> (string \<times> json) list" where
  "create_audit_detail now kwargs =
     filter (\<lambda>(k, v). v \<noteq> JNull)
       (fold (\<lambda>(k, v). AList.update k v) kwargs
          [(''timestamp'', JStr now), (''request_id'', JNull), (''user_agent'', JNull),
           (''ip_address'', JNull), (''endpoint'', JNull), (''method'', JNull),
           (''status_code'', JNull), (''response_time_ms'', JNull), (''error_message'', JNull)])"

section \<open>Bundle upload\<close>

text \<open>
  The route \<open>upload_bundle\<close> of \<open>app/routes/bundle_upload.py\<close>. What the route draws
  from outside is its environment: the tables the mapping service reads, the commits
  that fail, the fresh identifiers and the clock readings. The local variables
  \<open>created_resources\<close>, \<open>errors\<close>, \<open>mappings_added\<close> and the session are the state of
  the loop. A formatted reference \<open>kind/id\<close> is the pair \<open>Reference kind id\<close>, and an
  error message is the constructor of its format with the values it prints.
\<close>

record env =
  tables :: store
  non_string_code :: "json \<Rightarrow> exn + translation_candidate list"
  audit_fails :: "nat \<Rightarrow> bool"
  new_bundle_id :: string
  new_provenance_id :: string
  uuid4 :: "nat \<Rightarrow> string"
  stamp_now :: "nat \<Rightarrow> string"
  audit_now :: "nat \<Rightarrow> string"
  final_now :: string
  elapsed_ms :: real

datatype reference = Reference json json

datatype error_message = ConditionError json exn | AuditError json json exn

record bstate =
  created_resources :: "reference list"
  errors :: "error_message list"
  mappings_added :: nat
  db_state :: audit_db

definition namaste_uri :: string where
  "namaste_uri = ''http://namaste.example.com/fhir/CodeSystem/namaste''"

definition icd11_uri :: string where
  "icd11_uri = ''http://terminology.hl7.org/CodeSystem/icd11''"

fun first_namaste_coding :: "json list \<Rightarrow> exn + json" where
  "first_namaste_coding [] = Inr JNull"
| "first_namaste_coding (coding # rest) =
     (case py_get coding ''system'' JNull of
        Inl e \<Rightarrow> Inl e
      | Inr s \<Rightarrow> if s = JStr namaste_uri then Inr coding else first_namaste_coding rest)"

text \<open>
  The code of a coding is any JSON value, and \<open>translate\<close> is written for strings.
  What the database answers to a query for a code that is not a string depends on the
  database; it is the parameter \<open>non_string_code\<close> of the environment.
\<close>

definition translate_code :: "env \<Rightarrow> json \<Rightarrow> exn + translation_candidate list" where
  "translate_code ev c =
     (case c of JStr s \<Rightarrow> translate (tables ev) ''namaste'' s | _ \<Rightarrow> non_string_code ev c)"

definition icd11_coding :: "translation_candidate \<Rightarrow> json" where
  "icd11_coding t =
     JDict [(''system'', JStr icd11_uri),
            (''code'', JStr (cand_target_code t)),
            (''display'', JStr (case target_display t of None \<Rightarrow> [] | Some d \<Rightarrow> d)),
            (''userSelected'', JBool False)]"

text \<open>
  The statements that mutate the resource return the exception they raise, if any,
  with the resource as it is at that moment.
\<close>

definition append_coding :: "(string \<times> json) list \<Rightarrow> json \<Rightarrow> exn option \<times> (string \<times> json) list" where
  "append_coding resource c =
     (let resource = (if map_of resource ''code'' = None
                      then AList.update ''code'' (JDict [(''coding'', JList [])]) resource
                      else resource)
      in case map_of resource ''code'' of
           Some (JDict cd) \<Rightarrow>
             (let cd = (if map_of cd ''coding'' = None
                        then AList.update ''coding'' (JList []) cd else cd);
                  resource = AList.update ''code'' (JDict cd) resource
              in case map_of cd ''coding'' of
                   Some (JList cs) \<Rightarrow>
                     (None,
                      AList.update ''code''
                        (JDict (AList.update ''coding'' (JList (cs @ [c])) cd)) resource)
                 | _ \<Rightarrow> (Some AttributeError, resource))
         | _ \<Rightarrow> (Some TypeError, resource))"

definition processing_marker :: "string \<Rightarrow> json" where
  "processing_marker now =
     JDict [(''url'', JStr ''http://namaste.example.com/fhir/StructureDefinition/bundle-processing''),
            (''valueString'', JStr (''Processed by NAMASTE ICD Service at '' @ now))]"

definition add_provenance :: "string \<Rightarrow> (string \<times> json) list \<Rightarrow> exn option \<times> (string \<times> json) list" where
  "add_provenance now resource =
     (let meta = dict_get resource ''meta'' (JDict []);
          resource = AList.update ''meta'' meta resource
      in case meta of
           JDict md \<Rightarrow>
             (let ext = dict_get md ''extension'' (JList []);
                  md = AList.update ''extension'' ext md;
                  resource = AList.update ''meta'' (JDict md) resource
              in case ext of
                   JList es \<Rightarrow>
                     (None,
                      AList.update ''meta''
                        (JDict (AList.update ''extension'' (JList (es @ [processing_marker now])) md))
                        resource)
                 | _ \<Rightarrow> (Some AttributeError, resource))
         | _ \<Rightarrow> (Some AttributeError, resource))"

text \<open>The body of the \<open>try\<close> statement of the Condition branch, up to the marker.\<close>

definition condition_body ::
  "env \<Rightarrow> nat \<Rightarrow> (string \<times> json) list \<Rightarrow> nat \<Rightarrow> exn option \<times> (string \<times> json) list \<times> nat" where
  "condition_body ev i resource added =
     (case and_then (py_get (JDict resource) ''code'' (JDict []))
             (\<lambda>cd. and_then (py_get cd ''coding'' (JList []))
                (\<lambda>codings. and_then (py_iter codings) first_namaste_coding)) of
        Inl e \<Rightarrow> (Some e, resource, added)
      | Inr namaste_coding \<Rightarrow>
          (case (if truthy namaste_coding then
                   (case and_then (py_get namaste_coding ''code'' JNull) (translate_code ev) of
                      Inl e \<Rightarrow> (Some e, resource, added)
                    | Inr [] \<Rightarrow> (None, resource, added)
                    | Inr (t # ts) \<Rightarrow>
                        (case append_coding resource (icd11_coding t) of
                           (Some e, resource') \<Rightarrow> (Some e, resource', added)
                         | (None, resource') \<Rightarrow> (None, resource', added + 1)))
                 else (None, resource, added)) of
             (Some e, resource', added') \<Rightarrow> (Some e, resource', added')
           | (None, resource', added') \<Rightarrow>
               (case add_provenance (stamp_now ev i) resource' of
                  (raised, resource'') \<Rightarrow> (raised, resource'', added'))))"

definition write_back :: "json \<Rightarrow> (string \<times> json) list \<Rightarrow> json" where
  "write_back entry resource =
     (case entry of
        JDict e \<Rightarrow> (if map_of e ''resource'' = None then entry
                    else JDict (AList.update ''resource'' (JDict resource) e))
      | _ \<Rightarrow> entry)"

definition entry_audit_detail :: "env \<Rightarrow> json \<Rightarrow> nat \<Rightarrow> json \<Rightarrow> nat \<Rightarrow> (string \<times> json) list" where
  "entry_audit_detail ev consent_ref i rtype added =
     create_audit_detail (audit_now ev i)
       [(''bundle_id'', JStr (new_bundle_id ev)), (''consent_ref'', consent_ref),
        (''resource_type'', rtype), (''mappings_added'', JInt (int added))]"

definition audit_entry :: "env \<Rightarrow> string \<Rightarrow> json \<Rightarrow> nat \<Rightarrow> json \<Rightarrow> json \<Rightarrow> bstate \<Rightarrow> bstate" where
  "audit_entry ev act_by consent_ref i rtype rid st =
     (case record_audit (audit_fails ev) (db_state st) act_by ''create'' rtype rid
             (entry_audit_detail ev consent_ref i rtype (mappings_added st)) of
        (Inl e, db') \<Rightarrow> st\<lparr>errors := errors st @ [AuditError rtype rid e], db_state := db'\<rparr>
      | (Inr new_id, db') \<Rightarrow> st\<lparr>db_state := db'\<rparr>)"

text \<open>
  One iteration of the loop over the entries. The two \<open>get\<close> calls at its head are
  outside every \<open>try\<close>: their exception leaves the loop. An exception of the Condition
  branch is recorded and the iteration ends there (\<open>continue\<close>), before the audit.
\<close>

definition process_entry ::
  "env \<Rightarrow> string \<Rightarrow> json \<Rightarrow> nat \<Rightarrow> json \<Rightarrow> bstate \<Rightarrow> exn + json \<times> bstate" where
  "process_entry ev act_by consent_ref i entry st =
     and_then (py_get entry ''resource'' (JDict [])) (\<lambda>resource_json.
     and_then (py_get resource_json ''resourceType'' JNull) (\<lambda>rtype.
     and_then (py_get resource_json ''id'' (JStr (uuid4 ev i))) (\<lambda>rid.
       case resource_json of
         JDict resource \<Rightarrow>
           if rtype = JStr ''Condition'' then
             (case condition_body ev i resource (mappings_added st) of
                (Some e, resource', added) \<Rightarrow>
                  Inr (write_back entry resource',
                       st\<lparr>errors := errors st @ [ConditionError rid e], mappings_added := added\<rparr>)
              | (None, resource', added) \<Rightarrow>
                  Inr (write_back entry resource',
                       audit_entry ev act_by consent_ref i rtype rid
                         (st\<lparr>created_resources :=
                               created_resources st @ [Reference (JStr ''Condition'') rid],
                             mappings_added := added\<rparr>)))
           else if rtype \<in> {JStr ''Observation'', JStr ''DiagnosticReport'', JStr ''Procedure''} then
             Inr (entry,
                  audit_entry ev act_by consent_ref i rtype rid
                    (st\<lparr>created_resources := created_resources st @ [Reference rtype rid]\<rparr>))
           else Inr (entry, audit_entry ev act_by consent_ref i rtype rid st)
       | _ \<Rightarrow> Inl AttributeError)))"

fun process_entries ::
  "env \<Rightarrow> string \<Rightarrow> json \<Rightarrow> nat \<Rightarrow> json list \<Rightarrow> bstate \<Rightarrow> exn option \<times> json list \<times> bstate" where
  "process_entries ev act_by consent_ref i [] st = (None, [], st)"
| "process_entries ev act_by consent_ref i (entry # rest) st =
     (case process_entry ev act_by consent_ref i entry st of
        Inl e \<Rightarrow> (Some e, entry # rest, st)
      | Inr (entry', st') \<Rightarrow>
          (case process_entries ev act_by consent_ref (Suc i) rest st' of
             (raised, rest', st'') \<Rightarrow> (raised, entry' # rest', st'')))"

fun find_consent :: "json list \<Rightarrow> exn + json" where
  "find_consent [] = Inr JNull"
| "find_consent (entry # rest) =
     and_then (py_get entry ''resource'' (JDict [])) (\<lambda>resource_json.
     and_then (py_get resource_json ''resourceType'' JNull) (\<lambda>rtype.
       if rtype = JStr ''Consent'' then py_get resource_json ''id'' JNull
       else find_consent rest))"

record bundle_upload_response =
  success :: bool
  message :: string
  resp_created_resources :: "reference list"
  provenance_id :: "string option"
  resp_audit_id :: "string option"
  resp_mappings_added :: nat
  resp_errors :: "error_message list"

record outcome =
  response :: "http_exception + bundle_upload_response"
  db_after :: audit_db
  entries_after :: "json list"

fun exn_name :: "exn \<Rightarrow> string" where
  "exn_name AttributeError = ''AttributeError''"
| "exn_name TypeError = ''TypeError''"
| "exn_name ValueError = ''ValueError''"
| "exn_name MultipleResultsFound = ''MultipleResultsFound''"
| "exn_name DatabaseError = ''DatabaseError''"
| "exn_name HTTPError = ''HTTPError''"

text \<open>
  The handler \<open>except Exception\<close> of the route: one attempt to record the failure,
  whose own failure is passed over, and the server error.
\<close>

definition processing_failed :: "env \<Rightarrow> string \<Rightarrow> exn \<Rightarrow> audit_db \<Rightarrow> json list \<Rightarrow> outcome" where
  "processing_failed ev act_by e d entries =
     (case record_audit (audit_fails ev) d act_by ''upload'' (JStr ''Bundle'') (JStr (new_bundle_id ev))
             (create_audit_detail (final_now ev)
                [(''error_message'', JStr (exn_name e)), (''bundle_id'', JStr (new_bundle_id ev)),
                 (''processing_time_ms'', JFloat (elapsed_ms ev))]) of
        (r, d') \<Rightarrow> \<lparr>response = Inl (HTTPException 500 (Some e)), db_after = d', entries_after = entries\<rparr>)"

text \<open>
  The route. \<open>auth\<close> is the outcome of extracting and verifying the token: the
  exception raised or the actor. The request model guarantees that the bundle is a
  dictionary.
\<close>

definition upload_bundle :: "env \<Rightarrow> exn + string \<Rightarrow> (string \<times> json) list \<Rightarrow> audit_db \<Rightarrow> outcome" where
  "upload_bundle ev auth bundle d =
     (case auth of
        Inl e \<Rightarrow> processing_failed ev ''unknown'' e d []
      | Inr act_by \<Rightarrow>
          if dict_get bundle ''resourceType'' JNull \<noteq> JStr ''Bundle''
          then \<lparr>response = Inl (HTTPException 400 None), db_after = d, entries_after = []\<rparr>
          else
            (case py_iter (dict_get bundle ''entry'' (JList [])) of
               Inl e \<Rightarrow> processing_failed ev act_by e d []
             | Inr entries \<Rightarrow>
                 (case find_consent entries of
                    Inl e \<Rightarrow> processing_failed ev act_by e d entries
                  | Inr consent_ref \<Rightarrow>
                      (case process_entries ev act_by consent_ref 0 entries
                              \<lparr>created_resources = [], errors = [], mappings_added = 0, db_state = d\<rparr> of
                         (Some e, entries', st) \<Rightarrow> processing_failed ev act_by e (db_state st) entries'
                       | (None, entries', st) \<Rightarrow>
                           (let created = created_resources st
                                            @ [Reference (JStr ''Provenance'') (JStr (new_provenance_id ev))]
                            in case record_audit (audit_fails ev) (db_state st) act_by ''upload''
                                      (JStr ''Bundle'') (JStr (new_bundle_id ev))
                                      (create_audit_detail (final_now ev)
                                         [(''bundle_id'', JStr (new_bundle_id ev)),
                                          (''consent_ref'', consent_ref),
                                          (''resources_processed'', JInt (int (length created))),
                                          (''mappings_added'', JInt (int (mappings_added st))),
                                          (''processing_time_ms'', JFloat (elapsed_ms ev))]) of
                                 (Inl e, d') \<Rightarrow> processing_failed ev act_by e d' entries'
                               | (Inr new_id, d') \<Rightarrow>
                                   \<lparr>response =
                                      Inr \<lparr>success = True,
                                           message = ''Bundle processed successfully'',
                                           resp_created_resources = created,
                                           provenance_id = Some (new_provenance_id ev),
                                           resp_audit_id = Some new_id,
                                           resp_mappings_added = mappings_added st,
                                           resp_errors = errors st\<rparr>,
                                    db_after = d', entries_after = entries'\<rparr>)))))"

section \<open>The translation candidates as the specification words them\<close>

text \<open>
  The stored mappings whose source is the given pair, and the candidate of one mapping:
  the mapping's own fields, with the display of the target concept when the concept
  table has a row for the target pair.
\<close>

definition matching_mappings :: "store \<Rightarrow> string \<Rightarrow> string \<Rightarrow> mapping list" where
  "matching_mappings db sys cd =
     filter (\<lambda>m. source_system m = sys \<and> source_code m = cd) (mappings db)"

definition candidate_of :: "store \<Rightarrow> mapping \<Rightarrow> translation_candidate" where
  "candidate_of db m =
     \<lparr>cand_target_system = target_system m,
      cand_target_code = target_code m,
      target_display =
        map_option display
          (find (\<lambda>c. system c = target_system m \<and> code c = target_code m) (concepts db)),
      cand_equivalence = equivalence m,
      cand_confidence = confidence m,
      cand_method = mapping_method m,
      cand_evidence = evidence m\<rparr>"

section \<open>Search as the specification words it\<close>


section \<open>Bundle processing as the specification words it\<close>

text \<open>
  What the claims observe of an entry: its resource, when the entry is a dictionary
  whose resource (or the empty default) is a dictionary; the kind and the identifier
  the loop reads from that resource; the coding list of the resource. A coding is local
  when it is a dictionary whose system is the canonical URI of the local terminology,
  and foreign when it is a dictionary with another system or none.
\<close>

definition entry_resource :: "json \<Rightarrow> (string \<times> json) list option" where
  "entry_resource entry =
     (case py_get entry ''resource'' (JDict []) of Inr (JDict r) \<Rightarrow> Some r | _ \<Rightarrow> None)"

definition entry_kind :: "json \<Rightarrow> json" where
  "entry_kind entry =
     (case entry_resource entry of None \<Rightarrow> JNull | Some r \<Rightarrow> dict_get r ''resourceType'' JNull)"

definition entry_id :: "env \<Rightarrow> nat \<Rightarrow> json \<Rightarrow> json" where
  "entry_id ev i entry =
     (case entry_resource entry of
        None \<Rightarrow> JStr (uuid4 ev i)
      | Some r \<Rightarrow> dict_get r ''id'' (JStr (uuid4 ev i)))"

definition resource_codings :: "(string \<times> json) list \<Rightarrow> json list option" where
  "resource_codings r =
     (case map_of r ''code'' of
        Some (JDict cd) \<Rightarrow> (case map_of cd ''coding'' of Some (JList cs) \<Rightarrow> Some cs | _ \<Rightarrow> None)
      | _ \<Rightarrow> None)"

definition coding_list :: "json \<Rightarrow> json list option" where
  "coding_list entry =
     (case entry of
        JDict e \<Rightarrow> (case map_of e ''resource'' of Some (JDict r) \<Rightarrow> resource_codings r | _ \<Rightarrow> None)
      | _ \<Rightarrow> None)"

definition local_coding :: "json \<Rightarrow> bool" where
  "local_coding c \<longleftrightarrow> py_get c ''system'' JNull = Inr (JStr namaste_uri)"

definition foreign_coding :: "json \<Rightarrow> bool" where
  "foreign_coding c \<longleftrightarrow>
     (case py_get c ''system'' JNull of Inl e \<Rightarrow> False | Inr s \<Rightarrow> s \<noteq> JStr namaste_uri)"






section \<open>Example data\<close>

text \<open>
  The scenario of the specification: the concept Jwara with mappings of confidence
  0.9, 0.6 and 0.8, of which only the last has its target in the concept table.
\<close>

definition new_concept :: "string \<Rightarrow> string \<Rightarrow> string \<Rightarrow> concept" where
  "new_concept sys cd disp =
     \<lparr>system = sys, code = cd, display = disp, definition_text = None, language = ''en'',
      source = None, version = None, metadata = None\<rparr>"

definition new_mapping :: "string \<Rightarrow> string \<Rightarrow> real \<Rightarrow> mapping" where
  "new_mapping src tgt conf =
     \<lparr>source_system = ''namaste'', source_code = src, target_system = ''icd11'',
      target_code = tgt, equivalence = ''relatedto'', confidence = conf,
      mapping_method = Some ''expert_review'', evidence = None, curator = None\<rparr>"

definition example_store :: store where
  "example_store =
     \<lparr>concepts = [new_concept ''namaste'' ''NAM-AY-0001'' ''Jwara'',
                  new_concept ''icd11'' ''AB11'' ''Fever''],
      mappings = [new_mapping ''NAM-AY-0001'' ''AB13'' 0.9,
                  new_mapping ''NAM-AY-0001'' ''AB14'' 0.6,
                  new_mapping ''NAM-AY-0001'' ''AB11'' 0.8]\<rparr>"


definition example_env :: env where
  "example_env =
     \<lparr>tables = example_store, non_string_code = (\<lambda>c. Inr []),
      audit_fails = (\<lambda>n. False), new_bundle_id = ''b-1'',
      new_provenance_id = ''p-1'', uuid4 = (\<lambda>i. ''u''), stamp_now = (\<lambda>i. ''t1''),
      audit_now = (\<lambda>i. ''t2''), final_now = ''t3'', elapsed_ms = 5\<rparr>"

definition failing_env :: env where
  "failing_env = example_env\<lparr>audit_fails := (\<lambda>n. n = 0)\<rparr>"

definition namaste_coding_of :: "string \<Rightarrow> json" where
  "namaste_coding_of cd = JDict [(''system'', JStr namaste_uri), (''code'', JStr cd)]"

definition condition_entry :: "json list \<Rightarrow> json" where
  "condition_entry codings =
     JDict [(''resource'',
             JDict [(''resourceType'', JStr ''Condition''), (''id'', JStr ''c-1''),
                    (''code'', JDict [(''coding'', JList codings)])])]"

definition two_codings_entry :: json where
  "two_codings_entry =
     condition_entry [namaste_coding_of ''NAM-AY-9999'', namaste_coding_of ''NAM-AY-0001'']"


definition patient_entry :: json where
  "patient_entry =
     JDict [(''resource'', JDict [(''resourceType'', JStr ''Patient''), (''id'', JStr ''pt-1'')])]"

definition empty_state :: bstate where
  "empty_state =
     \<lparr>created_resources = [], errors = [], mappings_added = 0,
      db_state = \<lparr>audit_logs = [], commits = 0\<rparr>\<rparr>"

definition bundle_of :: "json list \<Rightarrow> (string \<times> json) list" where
  "bundle_of entries = [(''resourceType'', JStr ''Bundle''), (''entry'', JList entries)]"


section \<open>Properties of the relevance score\<close>

lemma fold_metadata_fields:
  "fold (\<lambda>field score. case map_of md field of None \<Rightarrow> score
            | Some v \<Rightarrow> if P v then score + (2/10::real) else score) fs s
   = s + (2/10) * real (length (filter (\<lambda>f. case map_of md f of None \<Rightarrow> False | Some v \<Rightarrow> P v) fs))"
  by (induction fs arbitrary: s) (auto split: option.splits simp: algebra_simps)

lemma metadata_component_None:
  "metadata c = None \<Longrightarrow> metadata_component q c = 0"
  by (simp add: metadata_component_def field_matches_def)

lemma metadata_component_Nil:
  "metadata c = Some [] \<Longrightarrow> metadata_component q c = 0"
  by (simp add: metadata_component_def field_matches_def)

lemma metadata_component_Some:
  "metadata c = Some md \<Longrightarrow> system c = ''namaste'' \<Longrightarrow>
   metadata_component q c =
     (2/10) * real (length (filter (\<lambda>f. case map_of md f of None \<Rightarrow> False
                                        | Some v \<Rightarrow> str_in (lower q) (lower (py_str v)))
                             metadata_fields))"
  by (simp add: metadata_component_def field_matches_def[abs_def])

lemma metadata_component_other:
  "system c \<noteq> ''namaste'' \<Longrightarrow> metadata_component q c = 0"
  by (simp add: metadata_component_def)

lemma metadata_component_nonneg: "0 \<le> metadata_component q c"
  by (simp add: metadata_component_def)

lemma definition_component_nonneg: "0 \<le> definition_component q c"
  by (simp add: definition_component_def split: option.splits)


lemma empty_query_components:
  assumes "lower q = []"
  shows "9/10 \<le> code_component q c" "6/10 \<le> display_component q c"
  using assms by (simp_all add: code_component_def display_component_def startswith_def)

lemma code_step:
  "(if lower (code c) = lower q then 0 + 1.0
    else if startswith (lower (code c)) (lower q) then 0 + 0.9
    else if str_in (lower q) (lower (code c)) then 0 + 0.7 else 0) = code_component q c"
  by (simp add: code_component_def)

lemma display_step:
  "(if lower (display c) = lower q then s + 0.8
    else if startswith (lower (display c)) (lower q) then s + 0.6
    else if str_in (lower q) (lower (display c)) then s + 0.4 else s) = s + display_component q c"
  by (simp add: display_component_def)

text \<open>
  The code tests the definition for being non-empty, the specification does not. The
  two differ only for an empty definition and an empty query.
\<close>

lemma definition_step:
  "(case definition_text c of None \<Rightarrow> s
     | Some d \<Rightarrow> if d \<noteq> [] \<and> str_in (lower q) (lower d) then s + 0.3 else s)
   = s + (if definition_text c = Some [] \<and> lower q = [] then 0 else definition_component q c)"
  by (auto simp: definition_component_def str_in_def lower_def split: option.splits)

lemma metadata_step:
  "(case metadata c of None \<Rightarrow> s
     | Some md \<Rightarrow> if system c = ''namaste'' \<and> md \<noteq> [] then
          fold (\<lambda>field score. case map_of md field of None \<Rightarrow> score
            | Some v \<Rightarrow> if str_in (lower q) (lower (py_str v)) then score + 0.2 else score)
            metadata_fields s
        else s)
   = s + metadata_component q c"
proof (cases "metadata c")
  case None
  then show ?thesis by (simp add: metadata_component_None)
next
  case (Some md)
  show ?thesis
  proof (cases "system c = ''namaste''")
    case True
    show ?thesis
    proof (cases "md = []")
      case True
      with Some show ?thesis by (simp add: metadata_component_Nil)
    next
      case False
      with Some \<open>system c = ''namaste''\<close> show ?thesis
        by (simp add: fold_metadata_fields metadata_component_Some)
    qed
  next
    case False
    with Some show ?thesis by (simp add: metadata_component_other)
  qed
qed

text \<open>
  For the empty query the code and display components alone exceed the clamp, so the
  difference of \<open>definition_step\<close> never shows in the score.
\<close>

lemma score_decomposition:
  "calculate_relevance_score q c = spec_relevance_score q c"
proof -
  have unfold: "calculate_relevance_score q c =
     min (code_component q c + display_component q c
          + (if definition_text c = Some [] \<and> lower q = [] then 0 else definition_component q c)
          + metadata_component q c) 1"
    unfolding calculate_relevance_score_def Let_def
    unfolding code_step display_step definition_step metadata_step
    by simp
  show ?thesis
  proof (cases "definition_text c = Some [] \<and> lower q = []")
    case False
    show ?thesis unfolding unfold spec_relevance_score_def if_not_P[OF False] by simp
  next
    case True
    then have "9/10 \<le> code_component q c" "6/10 \<le> display_component q c"
      using empty_query_components by simp_all
    moreover have "0 \<le> metadata_component q c" by (rule metadata_component_nonneg)
    moreover have "0 \<le> definition_component q c" by (rule definition_component_nonneg)
    ultimately show ?thesis using unfold True
      by (simp add: spec_relevance_score_def min_def)
  qed
qed

text \<open>
  Claim C1. For every concept and query, the relevance score the code computes is the
  code component (1.0 for an exact match, else 0.9 for a prefix match, else 0.7 for
  containment, else 0) plus the display component (0.8, 0.6, 0.4 or 0 in the same way)
  plus 0.3 when the concept has a definition containing the query, plus, for concepts of
  the system namaste only, 0.2 for each of the four metadata fields that is present
  and whose stringified value contains the query, all comparisons ignoring case, and
  the total clamped to at most 1.0.
\<close>

theorem relevance_score_formula:
  "calculate_relevance_score q c =
     min (code_component q c + display_component q c
          + definition_component q c + metadata_component q c) 1.0"
  using score_decomposition[of q c] by (simp only: spec_relevance_score_def)

text \<open>The scenario of the specification: the query jwara matches the display Jwara exactly.\<close>

lemma relevance_score_example:
  "calculate_relevance_score ''jwara'' (new_concept ''namaste'' ''NAM-AY-0001'' ''Jwara'') = 0.8"
  by (simp add: score_decomposition spec_relevance_score_def code_component_def
      display_component_def definition_component_def metadata_component_def field_matches_def
      new_concept_def lower_def lower_char_def startswith_def str_in_def sublist_Cons_right
      metadata_fields_def)

section \<open>Properties of the descending sort\<close>

lemma sort_reverse_Nil: "sort_reverse key [] = []"
  by (simp add: sort_reverse_def)

lemma sort_reverse_sorted:
  "sorted_wrt (\<lambda>a b. key b \<le> key a) (sort_reverse key xs)"
proof -
  have "sorted (map (\<lambda>x. - key x) (sort_key (\<lambda>x. - key x) xs))" by (rule sorted_sort_key)
  then show ?thesis by (simp add: sort_reverse_def sorted_map)
qed

lemma sort_reverse_stable:
  "filter (\<lambda>x. key x = k) (sort_reverse key xs) = filter (\<lambda>x. key x = k) xs"
  using sort_key_stable[of "\<lambda>x. - key x" "- k" xs] by (simp add: sort_reverse_def)

lemma sort_reverse_mset: "mset (sort_reverse key xs) = mset xs"
  by (simp add: sort_reverse_def)

lemma sort_reverse_length: "length (sort_reverse key xs) = length xs"
  by (simp add: sort_reverse_def)


lemma sort_reverse_idem: "sort_reverse key (sort_reverse key xs) = sort_reverse key xs"
  unfolding sort_reverse_def by (rule sort_key_id_if_sorted) (rule sorted_sort_key)

section \<open>Properties of the mapping service\<close>

lemma filter_distinct_key:
  "distinct (map f xs) \<Longrightarrow>
   filter (\<lambda>x. f x = k) xs = (case find (\<lambda>x. f x = k) xs of None \<Rightarrow> [] | Some x \<Rightarrow> [x])"
proof (induction xs)
  case Nil
  then show ?case by simp
next
  case (Cons a xs)
  show ?case
  proof (cases "f a = k")
    case True
    with Cons.prems have "k \<notin> f ` set xs" by simp
    then have "\<forall>x\<in>set xs. f x \<noteq> k" by auto
    then have "filter (\<lambda>x. f x = k) xs = []" by (simp add: filter_empty_conv)
    with True show ?thesis by simp
  next
    case False
    with Cons show ?thesis by simp
  qed
qed

lemma get_concept_unique:
  assumes "distinct (map (\<lambda>c. (system c, code c)) (concepts db))"
  shows "get_concept db sys cd = Inr (find (\<lambda>c. system c = sys \<and> code c = cd) (concepts db))"
proof -
  have "filter (\<lambda>c. (system c, code c) = (sys, cd)) (concepts db)
        = (case find (\<lambda>c. (system c, code c) = (sys, cd)) (concepts db) of
             None \<Rightarrow> [] | Some x \<Rightarrow> [x])"
    using assms by (rule filter_distinct_key)
  then show ?thesis
    by (simp add: get_concept_def split: option.splits)
qed

lemma translate_loop_unique:
  assumes "distinct (map (\<lambda>c. (system c, code c)) (concepts db))"
  shows "translate_loop db ms acc = Inr (acc @ map (candidate_of db) ms)"
proof (induction ms arbitrary: acc)
  case Nil
  show ?case by simp
next
  case (Cons m ms)
  show ?case
    by (simp add: get_concept_unique[OF assms] Cons.IH candidate_of_def split: option.splits)
qed

lemma translate_unique:
  assumes "distinct (map (\<lambda>c. (system c, code c)) (concepts db))"
  shows "translate db sys cd
         = Inr (sort_reverse cand_confidence (map (candidate_of db) (matching_mappings db sys cd)))"
  by (simp add: translate_def translate_loop_unique[OF assms] matching_mappings_def)

text \<open>
  Claim C2. When the concept table holds at most one row for each pair of system and
  code (the invariant of the data model, without which looking up a target concept
  raises), \<open>translate\<close> returns, and never an error: one candidate for each stored
  mapping with the given source, none when there is no such mapping, each candidate
  with the fields of its mapping and the display of the target concept when that is
  stored; the candidates are in descending order of confidence, and those of equal
  confidence are in the order of the mapping table.
\<close>

theorem translate_sorted_candidates:
  assumes "distinct (map (\<lambda>c. (system c, code c)) (concepts db))"
  shows "\<exists>cs. translate db sys cd = Inr cs
           \<and> mset cs = mset (map (candidate_of db) (matching_mappings db sys cd))
           \<and> length cs = length (matching_mappings db sys cd)
           \<and> sorted_wrt (\<lambda>a b. cand_confidence b \<le> cand_confidence a) cs
           \<and> (\<forall>k. filter (\<lambda>c. cand_confidence c = k) cs
                    = filter (\<lambda>c. cand_confidence c = k)
                        (map (candidate_of db) (matching_mappings db sys cd)))"
proof -
  let ?cands = "map (candidate_of db) (matching_mappings db sys cd)"
  have "translate db sys cd = Inr (sort_reverse cand_confidence ?cands)"
    by (rule translate_unique[OF assms])
  moreover have "length (sort_reverse cand_confidence ?cands) = length (matching_mappings db sys cd)"
    by (simp add: sort_reverse_length)
  ultimately show ?thesis
    using sort_reverse_sorted[of cand_confidence ?cands]
      sort_reverse_stable[of cand_confidence _ ?cands]
      sort_reverse_mset[of cand_confidence ?cands]
    by simp
qed

lemma example_store_distinct:
  "distinct (map (\<lambda>c. (system c, code c)) (concepts example_store))"
  by (simp add: example_store_def new_concept_def)

theorem translate_sorted_candidates_witness:
  "distinct (map (\<lambda>c. (system c, code c)) (concepts example_store))
   \<and> (\<exists>cs. translate example_store ''namaste'' ''NAM-AY-0001'' = Inr cs
           \<and> mset cs = mset (map (candidate_of example_store)
                               (matching_mappings example_store ''namaste'' ''NAM-AY-0001''))
           \<and> length cs = length (matching_mappings example_store ''namaste'' ''NAM-AY-0001'')
           \<and> sorted_wrt (\<lambda>a b. cand_confidence b \<le> cand_confidence a) cs
           \<and> (\<forall>k. filter (\<lambda>c. cand_confidence c = k) cs
                    = filter (\<lambda>c. cand_confidence c = k)
                        (map (candidate_of example_store)
                           (matching_mappings example_store ''namaste'' ''NAM-AY-0001''))))"
  using translate_sorted_candidates[OF example_store_distinct, of "''namaste''" "''NAM-AY-0001''"]
    example_store_distinct
  by (rule_tac conjI)

text \<open>The example of the specification: confidences 0.9, 0.6, 0.8 come back as 0.9, 0.8, 0.6.\<close>

lemma translate_example:
  "translate example_store ''namaste'' ''NAM-AY-0001''
   = Inr (map (candidate_of example_store)
            [new_mapping ''NAM-AY-0001'' ''AB13'' 0.9,
             new_mapping ''NAM-AY-0001'' ''AB11'' 0.8,
             new_mapping ''NAM-AY-0001'' ''AB14'' 0.6])"
  unfolding translate_unique[OF example_store_distinct]
  by (simp add: matching_mappings_def sort_reverse_def candidate_of_def example_store_def
      new_mapping_def new_concept_def)

subsection \<open>Adding a mapping\<close>

lemma add_mapping_fresh:
  assumes "filter (same_key m) (mappings (committed s)) = []"
      and "\<not> execute_fails f" and "\<not> commit_fails f"
  shows "add_mapping f m s
         = (Inr True,
            s\<lparr>committed := (committed s)\<lparr>mappings := mappings (committed s) @ pending s @ [m]\<rparr>,
              pending := []\<rparr>)"
  using assms
  by (simp add: add_mapping_def add_mapping_body_def execute_select_def and_then_def
        session_commit_def session_add_def)

lemma add_mapping_existing:
  assumes "filter (same_key m) (mappings (committed s)) \<noteq> []"
  shows "add_mapping f m s
         = (Inr False,
            if execute_fails f \<or> length (filter (same_key m) (mappings (committed s))) \<noteq> 1
            then session_rollback s else s)"
proof (cases "filter (same_key m) (mappings (committed s))")
  case Nil
  with assms show ?thesis by simp
next
  case (Cons a as)
  then show ?thesis
    by (cases as) (simp_all add: add_mapping_def add_mapping_body_def execute_select_def and_then_def)
qed

lemma same_key_refl: "same_key m m"
  by (simp add: same_key_def)

text \<open>
  Claim C5. On a session with nothing pending whose mapping table has no row with the
  4-tuple of \<open>m\<close>, when the first call meets no persistence failure, calling
  \<open>add_mapping\<close> twice with the same arguments returns true and then false, whatever
  happens to the database in the second call, and afterwards the table holds exactly
  one row with that 4-tuple, the one added.
\<close>

theorem add_mapping_twice:
  assumes "filter (same_key m) (mappings (committed s)) = []"
      and "pending s = []"
      and "\<not> execute_fails f1" and "\<not> commit_fails f1"
  shows "fst (add_mapping f1 m s) = Inr True
       \<and> fst (add_mapping f2 m (snd (add_mapping f1 m s))) = Inr False
       \<and> filter (same_key m)
           (mappings (committed (snd (add_mapping f2 m (snd (add_mapping f1 m s)))))) = [m]"
proof -
  let ?s1 = "s\<lparr>committed := (committed s)\<lparr>mappings := mappings (committed s) @ [m]\<rparr>, pending := []\<rparr>"
  have first: "add_mapping f1 m s = (Inr True, ?s1)"
    using add_mapping_fresh[OF assms(1,3,4)] assms(2) by simp
  have rows: "filter (same_key m) (mappings (committed ?s1)) = [m]"
    using assms(1) by (simp add: same_key_refl)
  then have ne: "filter (same_key m) (mappings (committed ?s1)) \<noteq> []" by simp
  have second: "add_mapping f2 m ?s1
                = (Inr False, if execute_fails f2 then session_rollback ?s1 else ?s1)"
    by (simp only: add_mapping_existing[OF ne] rows) simp
  have third: "filter (same_key m)
                 (mappings (committed (if execute_fails f2 then session_rollback ?s1 else ?s1))) = [m]"
    using rows by (simp add: session_rollback_def)
  show ?thesis
    by (simp only: first second third fst_conv snd_conv)
qed

theorem add_mapping_twice_witness:
  "filter (same_key (new_mapping ''NAM-AY-0002'' ''AB12'' 0.7))
     (mappings (committed \<lparr>committed = example_store, pending = []\<rparr>)) = []
   \<and> fst (add_mapping \<lparr>execute_fails = False, commit_fails = False\<rparr>
            (new_mapping ''NAM-AY-0002'' ''AB12'' 0.7)
            \<lparr>committed = example_store, pending = []\<rparr>) = Inr True
   \<and> fst (add_mapping \<lparr>execute_fails = False, commit_fails = False\<rparr>
            (new_mapping ''NAM-AY-0002'' ''AB12'' 0.7)
            (snd (add_mapping \<lparr>execute_fails = False, commit_fails = False\<rparr>
                    (new_mapping ''NAM-AY-0002'' ''AB12'' 0.7)
                    \<lparr>committed = example_store, pending = []\<rparr>))) = Inr False"
proof -
  have fresh: "filter (same_key (new_mapping ''NAM-AY-0002'' ''AB12'' 0.7))
                 (mappings (committed \<lparr>committed = example_store, pending = []\<rparr>)) = []"
    by (simp add: same_key_def new_mapping_def example_store_def)
  show ?thesis
    using fresh
      add_mapping_twice[OF fresh, of "\<lparr>execute_fails = False, commit_fails = False\<rparr>"
                                     "\<lparr>execute_fails = False, commit_fails = False\<rparr>"]
    by simp
qed

text \<open>
  Claim C9. \<open>add_mapping\<close> never raises: it returns a truth value for every input. The
  value is true exactly when the pre-check and the commit succeed and no row with the
  4-tuple is stored; so a persistence failure and a duplicate both give false. Whenever
  it returns false the committed tables are unchanged, and after a persistence failure
  nothing is left pending (the session is rolled back).
\<close>

theorem add_mapping_never_raises:
  "\<exists>b s'. add_mapping f m s = (Inr b, s')
     \<and> (b \<longleftrightarrow> \<not> execute_fails f \<and> \<not> commit_fails f
              \<and> filter (same_key m) (mappings (committed s)) = [])
     \<and> (\<not> b \<longrightarrow> committed s' = committed s)
     \<and> (execute_fails f \<or> (commit_fails f \<and> filter (same_key m) (mappings (committed s)) = [])
          \<longrightarrow> pending s' = [])"
proof (cases "filter (same_key m) (mappings (committed s)) = []")
  case True
  then show ?thesis
    by (auto simp: add_mapping_def add_mapping_body_def execute_select_def and_then_def
        session_commit_def session_add_def session_rollback_def)
next
  case False
  from add_mapping_existing[OF this, of f] False show ?thesis
    by (auto simp: session_rollback_def)
qed

theorem add_mapping_never_raises_witness:
  "\<exists>s'. add_mapping \<lparr>execute_fails = False, commit_fails = True\<rparr>
            (new_mapping ''NAM-AY-0002'' ''AB12'' 0.7)
            \<lparr>committed = example_store, pending = []\<rparr> = (Inr False, s')
        \<and> committed s' = example_store \<and> pending s' = []"
  using add_mapping_never_raises[of "\<lparr>execute_fails = False, commit_fails = True\<rparr>"
          "new_mapping ''NAM-AY-0002'' ''AB12'' 0.7" "\<lparr>committed = example_store, pending = []\<rparr>"]
  by (auto simp: same_key_def new_mapping_def example_store_def)

section \<open>Properties of search\<close>

subsection \<open>The pattern of a search for a code\<close>















subsection \<open>The merged search when the provider fails\<close>

text \<open>
  Claim C6 fails on the code. A search for jwara with no system filter, while the call
  to the external provider fails, does not return the locally-sourced results: the
  route runs the local search with the system namaste, that search raises at the
  attribute \<open>astext\<close>, and the handler of the route answers with the status 500.
\<close>

theorem merged_search_fails:
  "search_terms example_store (Inl HTTPError) 3 ''jwara'' None 10
   = Inl (HTTPException 500 (Some AttributeError))"
  by (simp add: search_terms_def search_def falsy_str_def)

text \<open>
  The same holds for every query, store and reply of the provider whenever the route
  runs the local search. The failure of the provider by itself is mapped to an empty
  sequence, as the one path that does not run the local search shows.
\<close>

lemma search_terms_local_path_fails:
  assumes "falsy_str sys \<or> sys \<in> {Some ''namaste'', Some ''all''}"
  shows "search_terms db http_reply elapsed q sys limit = Inl (HTTPException 500 (Some AttributeError))"
  using assms by (auto simp: search_terms_def search_def falsy_str_def)

lemma search_terms_provider_failure_icd11:
  "search_terms db (Inl e) elapsed q (Some ''icd11'') limit
   = Inr \<lparr>resp_query = q, resp_system = Some ''icd11'', total_results = 0, results = [],
          execution_time_ms = elapsed\<rparr>"
  by (simp add: search_terms_def falsy_str_def icd11_search_def rank_and_limit_def sort_reverse_Nil)

section \<open>Properties of bundle processing\<close>

subsection \<open>The Condition branch\<close>

lemma first_namaste_coding_found:
  assumes "\<forall>c\<in>set before. foreign_coding c" and "local_coding nc"
  shows "first_namaste_coding (before @ nc # after) = Inr nc"
  using assms
  by (induction before) (auto simp: foreign_coding_def local_coding_def split: sum.splits)

lemma local_coding_truthy: "local_coding nc \<Longrightarrow> truthy nc"
  by (cases nc) (auto simp: local_coding_def dict_get_def)

lemma resource_codings_SomeD:
  assumes "resource_codings r = Some cs"
  obtains cd where "map_of r ''code'' = Some (JDict cd)" "map_of cd ''coding'' = Some (JList cs)"
  using assms unfolding resource_codings_def
  by (auto split: option.splits json.splits)

lemma append_coding_codings:
  assumes "resource_codings r = Some cs"
  shows "\<exists>r'. append_coding r c = (None, r') \<and> resource_codings r' = Some (cs @ [c])"
proof -
  from assms obtain cd where cd: "map_of r ''code'' = Some (JDict cd)" "map_of cd ''coding'' = Some (JList cs)"
    by (rule resource_codings_SomeD)
  then show ?thesis
    by (simp add: append_coding_def Let_def resource_codings_def update_conv')
qed

lemma add_provenance_code:
  "map_of (snd (add_provenance now r)) ''code'' = map_of r ''code''"
  by (simp add: add_provenance_def Let_def update_conv' split: json.splits)

lemma add_provenance_codings:
  "resource_codings (snd (add_provenance now r)) = resource_codings r"
  by (simp add: resource_codings_def add_provenance_code)

lemma condition_body_appends:
  assumes codings: "resource_codings r = Some (before @ nc # after)"
      and before: "\<forall>c\<in>set before. foreign_coding c"
      and nc: "local_coding nc"
      and tr: "and_then (py_get nc ''code'' JNull) (translate_code ev) = Inr (t # ts)"
  shows "\<exists>raised r'. condition_body ev i r added = (raised, r', added + 1)
           \<and> resource_codings r' = Some (before @ nc # after @ [icd11_coding t])"
proof -
  from codings obtain cd where cd: "map_of r ''code'' = Some (JDict cd)"
      "map_of cd ''coding'' = Some (JList (before @ nc # after))"
    by (rule resource_codings_SomeD)
  have found: "and_then (py_get (JDict r) ''code'' (JDict []))
             (\<lambda>cd. and_then (py_get cd ''coding'' (JList []))
                (\<lambda>codings. and_then (py_iter codings) first_namaste_coding)) = Inr nc"
    using cd first_namaste_coding_found[OF before nc]
    by (simp add: and_then_def dict_get_def)
  from append_coding_codings[OF codings, of "icd11_coding t"]
  obtain r1 where r1: "append_coding r (icd11_coding t) = (None, r1)"
      "resource_codings r1 = Some ((before @ nc # after) @ [icd11_coding t])"
    by blast
  obtain raised r2 where r2: "add_provenance (stamp_now ev i) r1 = (raised, r2)"
    by (cases "add_provenance (stamp_now ev i) r1")
  then have "resource_codings r2 = resource_codings r1"
    using add_provenance_codings[of "stamp_now ev i" r1] by simp
  with r1 have "resource_codings r2 = Some (before @ nc # after @ [icd11_coding t])" by simp
  moreover have "condition_body ev i r added = (raised, r2, added + 1)"
    unfolding condition_body_def found
    by (simp add: local_coding_truthy[OF nc] tr r1 r2)
  ultimately show ?thesis by blast
qed

lemma audit_entry_mappings_added:
  "mappings_added (audit_entry ev act_by cref i k rid st) = mappings_added st"
  by (simp add: audit_entry_def record_audit_def Let_def)

lemma coding_list_write_back:
  assumes "entry = JDict e" "map_of e ''resource'' = Some old"
  shows "coding_list (write_back entry r) = resource_codings r"
  using assms by (simp add: write_back_def coding_list_def update_conv')

lemma coding_list_SomeD:
  assumes "coding_list entry = Some cs"
  obtains e r where "entry = JDict e" "map_of e ''resource'' = Some (JDict r)" "resource_codings r = Some cs"
  using assms unfolding coding_list_def
  by (auto split: option.splits json.splits)

lemma translate_unmapped:
  "translate example_store ''namaste'' ''NAM-AY-9999'' = Inr []"
  by (simp add: translate_def example_store_def new_mapping_def sort_reverse_def)

lemma local_coding_namaste: "local_coding (namaste_coding_of cd)"
  by (simp add: local_coding_def namaste_coding_of_def dict_get_def)

lemma coding_list_condition_entry: "coding_list (condition_entry cs) = Some cs"
  by (simp add: coding_list_def condition_entry_def resource_codings_def)

lemma entry_kind_condition_entry: "entry_kind (condition_entry cs) = JStr ''Condition''"
  by (simp add: entry_kind_def entry_resource_def condition_entry_def dict_get_def)

lemma tables_example_env: "tables example_env = example_store"
  by (simp add: example_env_def)

lemma translate_code_example:
  "and_then (py_get (namaste_coding_of ''NAM-AY-0001'') ''code'' JNull) (translate_code example_env)
   = Inr (candidate_of example_store (new_mapping ''NAM-AY-0001'' ''AB13'' 0.9)
          # map (candidate_of example_store)
              [new_mapping ''NAM-AY-0001'' ''AB11'' 0.8, new_mapping ''NAM-AY-0001'' ''AB14'' 0.6])"
  by (simp add: namaste_coding_of_def and_then_def dict_get_def translate_code_def
      tables_example_env translate_example)

lemma coding_list_write_back_condition:
  "coding_list (write_back (condition_entry cs) r) = resource_codings r"
  by (simp add: condition_entry_def write_back_def coding_list_def)

text \<open>
  Claim C7 as stated fails: the code looks at the first coding of the local system
  only (its search loop ends at the first match). This Condition carries two local
  codings; the resolver has three candidates for the code of the second and none for
  the code of the first, and processing the entry adds no coding and leaves the count
  of added mappings as it was.
\<close>

theorem condition_first_coding_counterexample:
  "entry_kind two_codings_entry = JStr ''Condition''
   \<and> coding_list two_codings_entry
       = Some [namaste_coding_of ''NAM-AY-9999'', namaste_coding_of ''NAM-AY-0001'']
   \<and> local_coding (namaste_coding_of ''NAM-AY-0001'')
   \<and> and_then (py_get (namaste_coding_of ''NAM-AY-0001'') ''code'' JNull)
        (translate_code example_env)
       = Inr (candidate_of example_store (new_mapping ''NAM-AY-0001'' ''AB13'' 0.9)
              # map (candidate_of example_store)
                  [new_mapping ''NAM-AY-0001'' ''AB11'' 0.8, new_mapping ''NAM-AY-0001'' ''AB14'' 0.6])
   \<and> \<not> isl (process_entry example_env ''Dr. Demo'' JNull 0 two_codings_entry empty_state)
   \<and> mappings_added (snd (projr (process_entry example_env ''Dr. Demo'' JNull 0 two_codings_entry empty_state)))
       = mappings_added empty_state
   \<and> coding_list (fst (projr (process_entry example_env ''Dr. Demo'' JNull 0 two_codings_entry empty_state)))
       = Some [namaste_coding_of ''NAM-AY-9999'', namaste_coding_of ''NAM-AY-0001'']"
proof -
  have run: "process_entry example_env ''Dr. Demo'' JNull 0 two_codings_entry empty_state
     = Inr (write_back two_codings_entry
              (snd (add_provenance (stamp_now example_env 0)
                 [(''resourceType'', JStr ''Condition''), (''id'', JStr ''c-1''),
                  (''code'', JDict [(''coding'', JList [namaste_coding_of ''NAM-AY-9999'',
                                                        namaste_coding_of ''NAM-AY-0001''])])])),
            audit_entry example_env ''Dr. Demo'' JNull 0 (JStr ''Condition'') (JStr ''c-1'')
              (empty_state\<lparr>created_resources := [Reference (JStr ''Condition'') (JStr ''c-1'')],
                            mappings_added := 0\<rparr>))"
    by (simp add: process_entry_def two_codings_entry_def condition_entry_def and_then_def
        dict_get_def condition_body_def namaste_coding_of_def namaste_uri_def translate_code_def
        tables_example_env translate_unmapped add_provenance_def Let_def empty_state_def)
  show ?thesis
    unfolding run
    by (simp add: entry_kind_condition_entry coding_list_condition_entry two_codings_entry_def
        local_coding_namaste translate_code_example audit_entry_mappings_added coding_list_write_back_condition
        add_provenance_code resource_codings_def empty_state_def)
qed

text \<open>
  Claim C7, amended. For every bundle entry of kind Condition whose first coding of the
  local system (every coding before it being a dictionary of another system) has a
  code for which the resolver returns at least one candidate, processing the entry
  increases the count of added mappings by exactly 1 and appends exactly one coding,
  made from the first candidate, to the coding list of the resource; the codings that
  were there stay unchanged and in their order. This holds whether or not the later
  stamping of the resource raises.
\<close>

theorem condition_appends_first_candidate:
  assumes kind: "entry_kind entry = JStr ''Condition''"
      and codings: "coding_list entry = Some (before @ nc # after)"
      and before: "\<forall>c\<in>set before. foreign_coding c"
      and nc: "local_coding nc"
      and tr: "and_then (py_get nc ''code'' JNull) (translate_code ev) = Inr (t # ts)"
  shows "\<exists>entry' st'. process_entry ev act_by cref i entry st = Inr (entry', st')
           \<and> mappings_added st' = mappings_added st + 1
           \<and> coding_list entry' = Some (before @ nc # after @ [icd11_coding t])"
proof -
  from codings obtain e r where e: "entry = JDict e" "map_of e ''resource'' = Some (JDict r)"
      and r: "resource_codings r = Some (before @ nc # after)"
    by (rule coding_list_SomeD)
  from kind e have k: "dict_get r ''resourceType'' JNull = JStr ''Condition''"
    by (simp add: entry_kind_def entry_resource_def dict_get_def)
  from condition_body_appends[OF r before nc tr, of i "mappings_added st"]
  obtain raised r' where body: "condition_body ev i r (mappings_added st) = (raised, r', mappings_added st + 1)"
      and r': "resource_codings r' = Some (before @ nc # after @ [icd11_coding t])"
    by blast
  have cl: "coding_list (write_back entry r') = Some (before @ nc # after @ [icd11_coding t])"
    using coding_list_write_back[OF e] r' by simp
  show ?thesis
  proof (cases raised)
    case None
    with e k body cl show ?thesis
      by (simp add: process_entry_def and_then_def dict_get_def audit_entry_mappings_added)
  next
    case (Some ex)
    with e k body cl show ?thesis
      by (simp add: process_entry_def and_then_def dict_get_def)
  qed
qed

theorem condition_appends_first_candidate_witness:
  "entry_kind (condition_entry [namaste_coding_of ''NAM-AY-0001'']) = JStr ''Condition''
   \<and> local_coding (namaste_coding_of ''NAM-AY-0001'')
   \<and> (\<exists>entry' st'.
         process_entry example_env ''Dr. Demo'' JNull 0
           (condition_entry [namaste_coding_of ''NAM-AY-0001'']) empty_state = Inr (entry', st')
         \<and> mappings_added st' = mappings_added empty_state + 1
         \<and> coding_list entry'
             = Some [namaste_coding_of ''NAM-AY-0001'',
                     icd11_coding (candidate_of example_store (new_mapping ''NAM-AY-0001'' ''AB13'' 0.9))])"
proof -
  let ?nc = "namaste_coding_of ''NAM-AY-0001''"
  have h1: "entry_kind (condition_entry [?nc]) = JStr ''Condition''"
    by (rule entry_kind_condition_entry)
  have h2: "coding_list (condition_entry [?nc]) = Some ([] @ ?nc # [])"
    by (simp add: coding_list_condition_entry)
  have h3: "\<forall>c\<in>set []. foreign_coding c" by simp
  have h4: "local_coding ?nc" by (rule local_coding_namaste)
  show ?thesis
    using condition_appends_first_candidate[OF h1 h2 h3 h4 translate_code_example,
            of "''Dr. Demo''" JNull 0 empty_state] h1 h4
    by simp
qed

subsection \<open>The audit record of an entry\<close>



lemma entry_resource_SomeD:
  assumes "entry_resource entry = Some r"
  shows "py_get entry ''resource'' (JDict []) = Inr (JDict r)"
  using assms unfolding entry_resource_def
  by (auto split: sum.splits json.splits)










subsection \<open>Entries of other kinds\<close>

text \<open>
  Claim C10. For every entry that is a dictionary whose resource is a dictionary of a
  kind other than Condition, Observation, DiagnosticReport and Procedure (a Consent
  entry, for one), processing the entry returns normally with the entry itself,
  unmodified, adds no reference to the created list and no mapping, and attempts one
  audit write: when the write succeeds a record with the action create and the kind
  and identifier of the entry is appended and the errors are unchanged; when it fails
  the failure of the write, and nothing else, is appended to the errors.
\<close>

theorem unrecognised_kind_passes_through:
  assumes "entry_resource entry \<noteq> None"
      and "entry_kind entry \<notin> {JStr ''Condition'', JStr ''Observation'', JStr ''DiagnosticReport'', JStr ''Procedure''}"
  shows "\<exists>st'. process_entry ev act_by cref i entry st = Inr (entry, st')
          \<and> created_resources st' = created_resources st
          \<and> mappings_added st' = mappings_added st
          \<and> commits (db_state st') = Suc (commits (db_state st))
          \<and> (if audit_fails ev (commits (db_state st))
             then errors st' = errors st @ [AuditError (entry_kind entry) (entry_id ev i entry) DatabaseError]
                  \<and> audit_logs (db_state st') = audit_logs (db_state st)
             else errors st' = errors st
                  \<and> (\<exists>rec. audit_logs (db_state st') = audit_logs (db_state st) @ [rec]
                        \<and> action rec = ''create'' \<and> resource_type rec = entry_kind entry
                        \<and> resource_id rec = entry_id ev i entry))"
proof -
  from assms(1) obtain r where wf: "entry_resource entry = Some r" by auto
  have res: "py_get entry ''resource'' (JDict []) = Inr (JDict r)"
    using wf by (rule entry_resource_SomeD)
  have k: "dict_get r ''resourceType'' JNull = entry_kind entry" using wf by (simp add: entry_kind_def)
  have rid: "dict_get r ''id'' (JStr (uuid4 ev i)) = entry_id ev i entry" using wf by (simp add: entry_id_def)
  have pe: "process_entry ev act_by cref i entry st
            = Inr (entry, audit_entry ev act_by cref i (entry_kind entry) (entry_id ev i entry) st)"
    unfolding process_entry_def res using assms(2) by (simp add: and_then_def k rid)
  show ?thesis
    unfolding pe by (simp add: audit_entry_def record_audit_def Let_def)
qed

theorem unrecognised_kind_passes_through_witness:
  "entry_resource patient_entry \<noteq> None
   \<and> entry_kind patient_entry = JStr ''Patient''
   \<and> (\<exists>st'. process_entry example_env ''Dr. Demo'' JNull 0 patient_entry empty_state
               = Inr (patient_entry, st')
          \<and> created_resources st' = created_resources empty_state
          \<and> mappings_added st' = mappings_added empty_state
          \<and> errors st' = errors empty_state
          \<and> commits (db_state st') = Suc (commits (db_state empty_state)))"
proof -
  have h1: "entry_resource patient_entry \<noteq> None"
    by (simp add: entry_resource_def patient_entry_def dict_get_def)
  have k: "entry_kind patient_entry = JStr ''Patient''"
    by (simp add: entry_kind_def entry_resource_def patient_entry_def dict_get_def)
  have h2: "entry_kind patient_entry
            \<notin> {JStr ''Condition'', JStr ''Observation'', JStr ''DiagnosticReport'', JStr ''Procedure''}"
    by (simp add: k)
  have ok: "\<not> audit_fails example_env (commits (db_state empty_state))"
    by (simp add: example_env_def)
  show ?thesis
    using unrecognised_kind_passes_through[OF h1 h2, of example_env "''Dr. Demo''" JNull 0 empty_state]
      h1 k ok
    by auto
qed

subsection \<open>Failure of the summary audit record\<close>

text \<open>
  A failure of the audit write of an entry is collected and the upload succeeds.
\<close>

lemma entry_audit_failure_continues:
  "response (upload_bundle failing_env (Inr ''Dr. Demo'') (bundle_of [patient_entry]) \<lparr>audit_logs = [], commits = 0\<rparr>)
   = Inr \<lparr>success = True, message = ''Bundle processed successfully'',
          resp_created_resources = [Reference (JStr ''Provenance'') (JStr ''p-1'')],
          provenance_id = Some ''p-1'', resp_audit_id = Some ''1'', resp_mappings_added = 0,
          resp_errors = [AuditError (JStr ''Patient'') (JStr ''pt-1'') DatabaseError]\<rparr>"
  by (simp add: upload_bundle_def bundle_of_def dict_get_def failing_env_def example_env_def
      record_audit_def processing_failed_def Let_def patient_entry_def process_entry_def and_then_def
      audit_entry_def string_of_nat.simps digit_char_def)

text \<open>
  Claim C3 says that no failure of an audit write aborts the upload of a structurally
  valid bundle. The write of the summary record is outside every handler but the
  outermost: on the valid bundle without entries, when the first commit of the request
  fails, the route answers with the server error 500 instead of a success result.
\<close>

theorem summary_audit_failure_aborts:
  "response (upload_bundle failing_env (Inr ''Dr. Demo'') (bundle_of []) \<lparr>audit_logs = [], commits = 0\<rparr>)
   = Inl (HTTPException 500 (Some DatabaseError))"
  by (simp add: upload_bundle_def bundle_of_def dict_get_def failing_env_def example_env_def
      record_audit_def processing_failed_def Let_def)

end
